theory Spec2Isabelle
  imports Complex_Main "HOL-Library.Sublist" "HOL-Library.Word"
begin

section \<open>Python values used by \<open>main.py\<close>\<close>

text \<open>
  A Python \<open>str\<close> is a sequence of code points. It is modelled as a \<open>string\<close> whose
  characters are the code points below 256; text with larger code points is outside the
  model. \<open>bytes\<close> are lists of 8-bit words. The slider value \<open>guidance_scale\<close> is a
  multiple of 0.5 between 1 and 20, which a binary float holds exactly, so it is a \<open>real\<close>.
\<close>

type_synonym bytes = "8 word list"

text \<open>The exceptions that can leave the library calls of the script.\<close>

datatype exn = UnidentifiedImageError | RequestException | OSError | AttributeError

text \<open>
  \<open>str.lower()\<close>: on code points below 256 the letters with a lower-case partner are
  \<open>A\<close>..\<open>Z\<close> (65..90) and 192..222 without the multiplication sign 215; the partner is
  32 further on. Every other code point below 256 is kept.
\<close>

definition lower_char :: "char \<Rightarrow> char" where
  "lower_char c =
     (let n = (of_char c :: nat)
      in if (65 \<le> n \<and> n \<le> 90) \<or> (192 \<le> n \<and> n \<le> 222 \<and> n \<noteq> 215)
         then char_of (n + 32) else c)"

definition str_lower :: "string \<Rightarrow> string" where
  "str_lower s = map lower_char s"

text \<open>\<open>sub in s\<close> on strings: \<open>sub\<close> occurs in \<open>s\<close> as a contiguous run.\<close>

fun str_contains :: "string \<Rightarrow> string \<Rightarrow> bool" where
  "str_contains [] sub = (sub = [])"
| "str_contains (c # cs) sub = (prefix sub (c # cs) \<or> str_contains cs sub)"

text \<open>\<open>str(n)\<close> of a Python int, as the f-string \<open>{response.status_code}\<close> renders it.\<close>

definition digit_char :: "nat \<Rightarrow> char" where
  "digit_char d = char_of (48 + d)"

fun str_nat :: "nat \<Rightarrow> string" where
  "str_nat n = (if n < 10 then [digit_char n] else str_nat (n div 10) @ [digit_char (n mod 10)])"

declare str_nat.simps [simp del]

definition str_int :: "int \<Rightarrow> string" where
  "str_int i = (if i < 0 then CHR ''-'' # str_nat (nat (- i)) else str_nat (nat i))"

text \<open>
  \<open>datetime.now().strftime('%Y%m%d_%H%M%S')\<close>: every field is written in decimal and
  padded with zeros on the left to its width (4 for the year, 2 for the others). For a
  year below 1000 some C libraries do not pad \<open>%Y\<close>; the theorems about the shape of
  the name assume a four-digit year.
\<close>

record datetime =
  year :: nat
  month :: nat
  day :: nat
  hour :: nat
  minute :: nat
  second :: nat

definition zpad :: "nat \<Rightarrow> nat \<Rightarrow> string" where
  "zpad width n = replicate (width - length (str_nat n)) CHR ''0'' @ str_nat n"

definition strftime :: "datetime \<Rightarrow> string" where
  "strftime dt =
     zpad 4 (year dt) @ zpad 2 (month dt) @ zpad 2 (day dt) @ ''_'' @
     zpad 2 (hour dt) @ zpad 2 (minute dt) @ zpad 2 (second dt)"

definition valid_datetime :: "datetime \<Rightarrow> bool" where
  "valid_datetime dt \<longleftrightarrow>
     1000 \<le> year dt \<and> year dt \<le> 9999 \<and> 1 \<le> month dt \<and> month dt \<le> 12 \<and>
     1 \<le> day dt \<and> day dt \<le> 31 \<and> hour dt \<le> 23 \<and> minute dt \<le> 59 \<and> second dt \<le> 59"

section \<open>The remote endpoint and the libraries\<close>

text \<open>The JSON value passed as \<open>json=payload\<close>.\<close>

datatype json = JStr string | JInt int | JFloat real | JObj "(string \<times> json) list"

text \<open>The fields of a \<open>requests.Response\<close> that the script reads.\<close>

record response =
  status_code :: int
  content :: bytes
  body_text :: string

text \<open>
  What a script run finds around it: the endpoint behind \<open>requests.post\<close> (a
  deterministic mock: a function of the request; a network failure is an exception),
  PIL's \<open>Image.open\<close> and \<open>Image.save(buf, format="PNG")\<close>, which raise on data they
  cannot handle, and the value of \<open>datetime.now()\<close> in this run. The type \<open>'img\<close> is
  the type of PIL image objects.
\<close>

record 'img env =
  requests_post :: "string \<Rightarrow> (string \<times> string) list \<Rightarrow> json \<Rightarrow> exn + response"
  Image_open :: "bytes \<Rightarrow> exn + 'img"
  Image_save_png :: "'img \<Rightarrow> exn + bytes"
  datetime_now :: datetime

section \<open>\<open>generate_image\<close>\<close>

definition loading_needle :: string where
  "loading_needle = ''waiting for the model to be loaded''"

definition loading_message :: string where
  "loading_message = ''Model is still loading. Please wait a moment and try again.''"

text \<open>The f-string \<open>f"Error: {response.status_code}\n{response.text}"\<close>.\<close>

definition error_message :: "int \<Rightarrow> string \<Rightarrow> string" where
  "error_message code txt = ''Error: '' @ str_int code @ [CHR 0x0A] @ txt"

text \<open>
  The function returns the pair \<open>(image, error)\<close>; an exception raised by
  \<open>requests.post\<close> or by \<open>Image.open\<close> is not caught and leaves the function (\<open>Inl\<close>).
\<close>

definition generate_image ::
  "'img env \<Rightarrow> string \<Rightarrow> string \<Rightarrow> string \<Rightarrow> int \<Rightarrow> real \<Rightarrow> exn + ('img option \<times> string option)"
where
  "generate_image env prompt model_id api_token num_steps guidance_scale =
     (let api_url = ''https://api-inference.huggingface.co/models/'' @ model_id;
          headers = [(''Authorization'', ''Bearer '' @ api_token)];
          payload = JObj [(''inputs'', JStr prompt),
                          (''parameters'', JObj [(''num_inference_steps'', JInt num_steps),
                                                 (''guidance_scale'', JFloat guidance_scale)])]
      in case requests_post env api_url headers payload of
           Inl e \<Rightarrow> Inl e
         | Inr response \<Rightarrow>
             if status_code response = 200 then
               (case Image_open env (content response) of
                  Inl e \<Rightarrow> Inl e
                | Inr img \<Rightarrow> Inr (Some img, None))
             else if str_contains (str_lower (body_text response)) loading_needle then
               Inr (None, Some loading_message)
             else
               Inr (None, Some (error_message (status_code response) (body_text response))))"

text \<open>
  The response that a call of \<open>generate_image\<close> receives: the request it builds, sent to
  the endpoint.
\<close>

definition response_of ::
  "'img env \<Rightarrow> string \<Rightarrow> string \<Rightarrow> string \<Rightarrow> int \<Rightarrow> real \<Rightarrow> exn + response"
where
  "response_of env prompt model_id api_token num_steps guidance_scale =
     requests_post env (''https://api-inference.huggingface.co/models/'' @ model_id)
       [(''Authorization'', ''Bearer '' @ api_token)]
       (JObj [(''inputs'', JStr prompt),
              (''parameters'', JObj [(''num_inference_steps'', JInt num_steps),
                                     (''guidance_scale'', JFloat guidance_scale)])])"

text \<open>
  The tag of the specification's \<open>GenerationResult\<close> that an outcome of
  \<open>generate_image\<close> stands for, read the way the caller reads the pair: a truthy
  \<open>image\<close> first, then a truthy \<open>error\<close>, which is the fixed loading message or
  a message with the status code and body.
\<close>

datatype tag = Tag_Image | Tag_RetryableError | Tag_FatalError | Tag_Raised | Tag_Nothing

fun result_tag :: "exn + ('img option \<times> string option) \<Rightarrow> tag" where
  "result_tag (Inl e) = Tag_Raised"
| "result_tag (Inr (Some img, err)) = Tag_Image"
| "result_tag (Inr (None, Some msg)) =
     (if msg = [] then Tag_Nothing
      else if msg = loading_message then Tag_RetryableError else Tag_FatalError)"
| "result_tag (Inr (None, None)) = Tag_Nothing"

section \<open>The script\<close>

text \<open>
  Streamlit runs the script from top to bottom once per user interaction. A run reads the
  widgets, reads and writes \<open>st.session_state\<close>, which lives across the runs of one
  session, and draws elements. The widget values of a run are its input; the two
  \<open>st.button\<close> calls return what the fields \<open>generate_button\<close> and
  \<open>create_new_button\<close> say (the argument \<open>disabled\<close> of the first only changes how
  the browser draws it).
\<close>

record widgets =
  api_token :: string
  model_id :: string
  prompt :: string
  num_steps :: int
  guidance_scale :: real
  generate_button :: bool
  create_new_button :: bool

text \<open>
  \<open>st.session_state\<close> is a dictionary from names to Python objects; the script stores
  PIL images and strings in it.
\<close>

datatype 'img pyvalue = Img 'img | Str string

type_synonym 'img session = "string \<rightharpoonup> 'img pyvalue"

text \<open>
  What a run does that can be seen from outside, in order: the calls of
  \<open>generate_image\<close> with their arguments, and the elements \<open>st.error\<close>,
  \<open>st.image\<close> (image and caption) and \<open>st.download_button\<close> (data, file name, mime).
  The static elements (titles, help texts, the tips) take no part in any decision and
  are left out.
\<close>

datatype 'img event =
    Call_generate_image string string string int real
  | St_error string
  | St_image "'img pyvalue" "'img pyvalue"
  | St_download_button bytes string string

text \<open>How a run ends: at the last line, at \<open>st.rerun()\<close>, or with an uncaught exception.\<close>

datatype ending = Completed | Rerun | Uncaught exn

text \<open>
  Lines 108 to 129. A PIL image object is truthy (the class defines neither
  \<open>__bool__\<close> nor \<open>__len__\<close>), so \<open>if image\<close> asks whether \<open>image\<close> is not
  \<open>None\<close>; \<open>elif error\<close> asks for a string that is not empty. The result is the
  session state, the events, and the exception that ended the run here, if one did.
\<close>

definition generate_section ::
  "'img env \<Rightarrow> widgets \<Rightarrow> 'img session \<Rightarrow> 'img session \<times> 'img event list \<times> exn option"
where
  "generate_section env w s =
     (if generate_button w then
        if api_token w = [] then
          (s, [St_error ''Please enter your Hugging Face API token in the sidebar.''], None)
        else if prompt w = [] then
          (s, [St_error ''Please enter a prompt to generate an image.''], None)
        else
          (let call = Call_generate_image (prompt w) (model_id w) (api_token w)
                        (num_steps w) (guidance_scale w)
           in case generate_image env (prompt w) (model_id w) (api_token w)
                     (num_steps w) (guidance_scale w) of
                Inl e \<Rightarrow> (s, [call], Some e)
              | Inr (Some img, err) \<Rightarrow>
                  (s(''last_image'' \<mapsto> Img img, ''last_prompt'' \<mapsto> Str (prompt w)), [call], None)
              | Inr (None, Some msg) \<Rightarrow>
                  if msg \<noteq> [] then (s, [call, St_error msg], None) else (s, [call], None)
              | Inr (None, None) \<Rightarrow> (s, [call], None))
      else (s, [], None))"

text \<open>
  Lines 132 to 154. Reading \<open>st.session_state.last_prompt\<close> when the key is missing
  raises \<open>AttributeError\<close>, and so does \<open>.save\<close> on a string; neither happens in a
  session the script has built itself. \<open>pop(key, None)\<close> removes a key if it is there.
\<close>

definition display_section ::
  "'img env \<Rightarrow> widgets \<Rightarrow> 'img session \<Rightarrow> 'img session \<times> 'img event list \<times> ending"
where
  "display_section env w s =
     (case s ''last_image'' of
        None \<Rightarrow> (s, [], Completed)
      | Some last_image \<Rightarrow>
          (case s ''last_prompt'' of
             None \<Rightarrow> (s, [], Uncaught AttributeError)
           | Some last_prompt \<Rightarrow>
               (case last_image of
                  Str x \<Rightarrow> (s, [St_image last_image last_prompt], Uncaught AttributeError)
                | Img im \<Rightarrow>
                    (case Image_save_png env im of
                       Inl e \<Rightarrow> (s, [St_image last_image last_prompt], Uncaught e)
                     | Inr byte_im \<Rightarrow>
                         (let shown =
                                [St_image last_image last_prompt,
                                 St_download_button byte_im
                                   (''ai_image_'' @ strftime (datetime_now env) @ ''.png'')
                                   ''image/png'']
                          in if create_new_button w then
                               (s(''last_image'' := None, ''last_prompt'' := None), shown, Rerun)
                             else (s, shown, Completed))))))"

text \<open>One run of the script: the second part is reached unless the first one raised.\<close>

record 'img run =
  session_state :: "'img session"
  events :: "'img event list"
  ending :: ending

definition script_run :: "'img env \<Rightarrow> widgets \<Rightarrow> 'img session \<Rightarrow> 'img run" where
  "script_run env w s =
     (case generate_section env w s of
        (s1, ev1, Some e) \<Rightarrow> \<lparr>session_state = s1, events = ev1, ending = Uncaught e\<rparr>
      | (s1, ev1, None) \<Rightarrow>
          (case display_section env w s1 of
             (s2, ev2, fin) \<Rightarrow> \<lparr>session_state = s2, events = ev1 @ ev2, ending = fin\<rparr>))"

text \<open>
  The session states a session can be in: it starts empty, and every run (also the one
  that \<open>st.rerun()\<close> starts) continues from the state the run before left.
\<close>

inductive reachable :: "'img session \<Rightarrow> bool" where
  start: "reachable Map.empty"
| step: "reachable s \<Longrightarrow> reachable (session_state (script_run env w s))"

text \<open>What the events of a run say.\<close>

fun is_call :: "'img event \<Rightarrow> bool" where
  "is_call (Call_generate_image p m t n g) = True"
| "is_call e = False"

fun download_names :: "'img event list \<Rightarrow> string list" where
  "download_names [] = []"
| "download_names (St_download_button d f m # es) = f # download_names es"
| "download_names (e # es) = download_names es"

text \<open>A decimal digit, and the shape \<open>YYYYMMDD_HHMMSS\<close>.\<close>

definition is_digit :: "char \<Rightarrow> bool" where
  "is_digit c \<longleftrightarrow> 48 \<le> (of_char c :: nat) \<and> (of_char c :: nat) \<le> 57"

definition timestamp_shape :: "string \<Rightarrow> bool" where
  "timestamp_shape t \<longleftrightarrow>
     length t = 15 \<and> t ! 8 = CHR ''_'' \<and> list_all is_digit (take 8 t) \<and>
     list_all is_digit (drop 9 t)"

text \<open>
  The other way to say that two calls meet endpoints of the same behaviour: both calls
  fail to get a response, or both get one, with the same status code and text and with
  bodies that both decode or both do not. The bytes of the bodies may differ.
\<close>

fun agree :: "'img env \<Rightarrow> 'img env \<Rightarrow> exn + response \<Rightarrow> exn + response \<Rightarrow> bool" where
  "agree env1 env2 (Inl e1) (Inl e2) = True"
| "agree env1 env2 (Inr r1) (Inr r2) =
     (status_code r1 = status_code r2 \<and> body_text r1 = body_text r2 \<and>
      isl (Image_open env1 (content r1)) = isl (Image_open env2 (content r2)))"
| "agree env1 env2 (Inl e1) (Inr r2) = False"
| "agree env1 env2 (Inr r1) (Inl e2) = False"

text \<open>
  The shape of the session states the script builds: no key but \<open>last_image\<close> and
  \<open>last_prompt\<close>, and either both are missing or the first holds one image and the
  second one string.
\<close>

definition one_result :: "'img session \<Rightarrow> bool" where
  "one_result s \<longleftrightarrow>
     dom s \<subseteq> {''last_image'', ''last_prompt''} \<and>
     (case s ''last_image'' of
        None \<Rightarrow> s ''last_prompt'' = None
      | Some (Img im) \<Rightarrow> (case s ''last_prompt'' of Some (Str p) \<Rightarrow> True | _ \<Rightarrow> False)
      | Some (Str x) \<Rightarrow> False)"

section \<open>Mock endpoints and sample inputs\<close>

text \<open>
  A decoder that accepts the data that starts with the PNG signature and keeps an image
  as its data, an endpoint that answers every request with one fixed response, and the
  responses and inputs the examples below run on.
\<close>

definition png_body :: bytes where
  "png_body = [137, 80, 78, 71, 13, 10, 26, 10]"

definition other_png_body :: bytes where
  "other_png_body = [137, 80, 78, 71, 13, 10, 26, 10, 0, 0, 0, 13]"

definition mock_open :: "bytes \<Rightarrow> exn + bytes" where
  "mock_open b = (if take 4 b = [137, 80, 78, 71] then Inr b else Inl UnidentifiedImageError)"

definition mock_env :: "response \<Rightarrow> datetime \<Rightarrow> bytes env" where
  "mock_env r t =
     \<lparr>requests_post = (\<lambda>url headers payload. Inr r), Image_open = mock_open,
      Image_save_png = (\<lambda>im. Inr im), datetime_now = t\<rparr>"

definition noon :: datetime where
  "noon = \<lparr>year = 2024, month = 1, day = 2, hour = 12, minute = 0, second = 0\<rparr>"

definition later :: datetime where
  "later = \<lparr>year = 2024, month = 1, day = 2, hour = 12, minute = 5, second = 30\<rparr>"

definition ok_response :: response where
  "ok_response = \<lparr>status_code = 200, content = png_body, body_text = []\<rparr>"

definition other_ok_response :: response where
  "other_ok_response = \<lparr>status_code = 200, content = other_png_body, body_text = []\<rparr>"

definition loading_response :: response where
  "loading_response =
     \<lparr>status_code = 503, content = [], body_text = ''Waiting For The Model To Be Loaded''\<rparr>"

definition failed_response :: response where
  "failed_response =
     \<lparr>status_code = 500, content = [], body_text = ''Internal Server Error''\<rparr>"

definition garbled_response :: response where
  "garbled_response = \<lparr>status_code = 200, content = [1, 2, 3], body_text = []\<rparr>"

definition request_widgets :: widgets where
  "request_widgets =
     \<lparr>api_token = ''hf_demo'', model_id = ''stabilityai/stable-diffusion-2-1'',
      prompt = ''a red ball'', num_steps = 50, guidance_scale = 7.5,
      generate_button = True, create_new_button = False\<rparr>"

definition idle_widgets :: widgets where
  "idle_widgets = request_widgets\<lparr>generate_button := False\<rparr>"


definition no_prompt_widgets :: widgets where
  "no_prompt_widgets = request_widgets\<lparr>prompt := []\<rparr>"

definition no_token_widgets :: widgets where
  "no_token_widgets = request_widgets\<lparr>api_token := []\<rparr>"

text \<open>
  A session that has just started, its first run (a request at noon that succeeds), and
  the session state that run leaves.
\<close>

definition no_session :: "bytes session" where
  "no_session = Map.empty"

definition first_run :: "bytes run" where
  "first_run = script_run (mock_env ok_response noon) request_widgets no_session"

definition held_session :: "bytes session" where
  "held_session = session_state first_run"

section \<open>Strings: containment, lower case, numbers\<close>

lemma str_contains_sublist: "str_contains s sub \<longleftrightarrow> sublist sub s"
  by (induction s) (simp_all add: sublist_Cons_right)

lemma str_contains_iff: "str_contains s sub \<longleftrightarrow> (\<exists>ps ss. s = ps @ sub @ ss)"
  by (simp add: str_contains_sublist sublist_def)

lemma str_lower_append: "str_lower (a @ b) = str_lower a @ str_lower b"
  by (simp add: str_lower_def)

lemma loading_test_iff:
  "str_contains (str_lower s) sub \<longleftrightarrow> (\<exists>ps v ss. s = ps @ v @ ss \<and> str_lower v = sub)"
proof
  assume "str_contains (str_lower s) sub"
  then obtain a b where "map lower_char s = a @ (sub @ b)"
    by (auto simp: str_contains_iff str_lower_def)
  then obtain ps rest where 1: "s = ps @ rest" and "sub @ b = map lower_char rest"
    unfolding map_eq_append_conv by blast
  then have "map lower_char rest = sub @ b" by simp
  then obtain v ss where 2: "rest = v @ ss" and 3: "sub = map lower_char v"
    unfolding map_eq_append_conv by blast
  show "\<exists>ps v ss. s = ps @ v @ ss \<and> str_lower v = sub"
    using 1 2 3 by (auto simp: str_lower_def)
next
  assume "\<exists>ps v ss. s = ps @ v @ ss \<and> str_lower v = sub"
  then obtain ps v ss where "s = ps @ v @ ss" and "str_lower v = sub" by blast
  then have "str_lower s = str_lower ps @ sub @ str_lower ss"
    by (simp add: str_lower_append)
  then show "str_contains (str_lower s) sub"
    unfolding str_contains_iff by blast
qed

lemma of_char_digit_char: "d < 10 \<Longrightarrow> (of_char (digit_char d) :: nat) = 48 + d"
  by (simp add: digit_char_def)

lemma is_digit_digit_char: "d < 10 \<Longrightarrow> is_digit (digit_char d)"
  by (simp add: is_digit_def of_char_digit_char)

lemma str_nat_digits: "list_all is_digit (str_nat n)"
proof (induction n rule: str_nat.induct)
  case (1 n)
  show ?case
  proof (cases "n < 10")
    case True
    then show ?thesis by (subst str_nat.simps) (simp add: is_digit_digit_char)
  next
    case False
    then show ?thesis using 1 by (subst str_nat.simps) (simp add: is_digit_digit_char)
  qed
qed

lemma str_nat_not_Nil: "str_nat n \<noteq> []"
  by (subst str_nat.simps) simp

lemma digit_char_inj: "a < 10 \<Longrightarrow> b < 10 \<Longrightarrow> digit_char a = digit_char b \<Longrightarrow> a = b"
  by (metis of_char_digit_char add_left_cancel)

lemma str_nat_inj: "str_nat n = str_nat k \<Longrightarrow> n = k"
proof (induction n arbitrary: k rule: str_nat.induct)
  case (1 n)
  show ?case
  proof (cases "n < 10")
    case n: True
    show ?thesis
    proof (cases "k < 10")
      case True
      then show ?thesis using n "1.prems" digit_char_inj
        by (simp add: str_nat.simps [of n] str_nat.simps [of k])
    next
      case False
      then show ?thesis using n "1.prems" str_nat_not_Nil [of "k div 10"]
        by (simp add: str_nat.simps [of n] str_nat.simps [of k] Cons_eq_append_conv)
    qed
  next
    case n: False
    show ?thesis
    proof (cases "k < 10")
      case True
      then show ?thesis using n "1.prems" str_nat_not_Nil [of "n div 10"]
        by (simp add: str_nat.simps [of n] str_nat.simps [of k] append_eq_Cons_conv)
    next
      case False
      then have "str_nat (n div 10) = str_nat (k div 10)" "digit_char (n mod 10) = digit_char (k mod 10)"
        using n "1.prems" by (simp_all add: str_nat.simps [of n] str_nat.simps [of k])
      then have "n div 10 = k div 10" "n mod 10 = k mod 10"
        using "1.IH" [OF n] digit_char_inj [of "n mod 10" "k mod 10"] by simp_all
      then show ?thesis by (metis div_mult_mod_eq)
    qed
  qed
qed

lemma minus_not_digit: "\<not> is_digit CHR ''-''"
  by (simp add: is_digit_def)

lemma newline_not_digit: "\<not> is_digit (CHR 0x0A)"
  by (simp add: is_digit_def)

lemma str_nat_no_minus: "str_nat n \<noteq> CHR ''-'' # xs"
  using str_nat_digits [of n] minus_not_digit by auto

lemma str_int_inj: "str_int i = str_int j \<Longrightarrow> i = j"
proof -
  assume eq: "str_int i = str_int j"
  consider "i < 0" "j < 0" | "i < 0" "\<not> j < 0" | "\<not> i < 0" "j < 0" | "\<not> i < 0" "\<not> j < 0"
    by blast
  then show "i = j"
  proof cases
    case 1
    then have "str_nat (nat (- i)) = str_nat (nat (- j))" using eq by (simp add: str_int_def)
    then have "nat (- i) = nat (- j)" by (rule str_nat_inj)
    then show ?thesis using 1 by simp
  next
    case 2
    then have "str_int i = CHR ''-'' # str_nat (nat (- i))" and "str_int j = str_nat (nat j)"
      by (simp_all add: str_int_def)
    then have "str_nat (nat j) = CHR ''-'' # str_nat (nat (- i))" using eq by metis
    then show ?thesis using str_nat_no_minus by blast
  next
    case 3
    then have "str_int j = CHR ''-'' # str_nat (nat (- j))" and "str_int i = str_nat (nat i)"
      by (simp_all add: str_int_def)
    then have "str_nat (nat i) = CHR ''-'' # str_nat (nat (- j))" using eq by metis
    then show ?thesis using str_nat_no_minus by blast
  next
    case 4
    then have "str_nat (nat i) = str_nat (nat j)" using eq by (simp add: str_int_def)
    then have "nat i = nat j" by (rule str_nat_inj)
    then show ?thesis using 4 by simp
  qed
qed

lemma newline_not_in_str_int: "CHR 0x0A \<notin> set (str_int i)"
  using str_nat_digits [of "nat i"] str_nat_digits [of "nat (- i)"] newline_not_digit
  by (auto simp: str_int_def list_all_iff)

lemma error_message_not_loading: "error_message c b \<noteq> loading_message"
  by (simp add: error_message_def loading_message_def)

lemma error_message_not_Nil: "error_message c b \<noteq> []"
  by (simp add: error_message_def)

lemma split_at_first:
  "x \<notin> set xs \<Longrightarrow> x \<notin> set xs' \<Longrightarrow> xs @ x # ys = xs' @ x # ys' \<Longrightarrow> xs = xs' \<and> ys = ys'"
proof (induction xs arbitrary: xs')
  case Nil
  then show ?case by (cases xs') auto
next
  case (Cons a xs)
  then show ?case by (cases xs') auto
qed

lemma error_message_inj:
  assumes "error_message c b = error_message c' b'"
  shows "c = c' \<and> b = b'"
proof -
  have "str_int c @ CHR 0x0A # b = str_int c' @ CHR 0x0A # b'"
    using assms unfolding error_message_def by simp
  then have "str_int c = str_int c' \<and> b = b'"
    by (rule split_at_first [OF newline_not_in_str_int newline_not_in_str_int])
  then show ?thesis using str_int_inj [of c c'] by simp
qed

lemma length_str_nat: "n < 10 ^ k \<Longrightarrow> 0 < k \<Longrightarrow> length (str_nat n) \<le> k"
proof (induction k arbitrary: n)
  case 0
  then show ?case by simp
next
  case (Suc k)
  show ?case
  proof (cases "n < 10")
    case True
    then show ?thesis by (simp add: str_nat.simps [of n])
  next
    case False
    then have "0 < k" using Suc.prems by (cases k) auto
    moreover have "n div 10 < 10 ^ k" using Suc.prems by (simp add: less_mult_imp_div_less mult.commute)
    ultimately have "length (str_nat (n div 10)) \<le> k" using Suc.IH by blast
    then show ?thesis using False by (simp add: str_nat.simps [of n])
  qed
qed

lemma length_zpad: "n < 10 ^ k \<Longrightarrow> 0 < k \<Longrightarrow> length (zpad k n) = k"
  using length_str_nat [of n k] by (simp add: zpad_def)

lemma zero_is_digit: "is_digit CHR ''0''"
  by (simp add: is_digit_def)

lemma digits_zpad: "list_all is_digit (zpad k n)"
  using str_nat_digits [of n] zero_is_digit by (auto simp: zpad_def list_all_iff)

lemma strftime_shape:
  assumes "valid_datetime dt"
  shows "timestamp_shape (strftime dt)"
proof -
  have l: "length (zpad 4 (year dt)) = 4" "length (zpad 2 (month dt)) = 2"
    "length (zpad 2 (day dt)) = 2" "length (zpad 2 (hour dt)) = 2"
    "length (zpad 2 (minute dt)) = 2" "length (zpad 2 (second dt)) = 2"
    using assms by (simp_all add: valid_datetime_def length_zpad)
  have "length (strftime dt) = 15" by (simp add: strftime_def l)
  moreover have "strftime dt ! 8 = CHR ''_''"
    by (simp add: strftime_def nth_append l)
  moreover have "list_all is_digit (take 8 (strftime dt))"
    by (simp add: strftime_def l digits_zpad)
  moreover have "list_all is_digit (drop 9 (strftime dt))"
    by (simp add: strftime_def l digits_zpad)
  ultimately show ?thesis by (simp add: timestamp_shape_def)
qed

section \<open>What \<open>generate_image\<close> returns\<close>

lemma generate_image_response:
  "generate_image env p m t n g =
     (case response_of env p m t n g of
        Inl e \<Rightarrow> Inl e
      | Inr r \<Rightarrow>
          if status_code r = 200 then
            (case Image_open env (content r) of Inl e \<Rightarrow> Inl e | Inr img \<Rightarrow> Inr (Some img, None))
          else if str_contains (str_lower (body_text r)) loading_needle then
            Inr (None, Some loading_message)
          else Inr (None, Some (error_message (status_code r) (body_text r))))"
  by (simp add: generate_image_def response_of_def)

lemma response_of_mock: "response_of (mock_env r d) p m t n g = Inr r"
  by (simp add: response_of_def mock_env_def)

lemma loading_message_not_Nil: "loading_message \<noteq> []"
  by (simp add: loading_message_def)

text \<open>
  C1. When the response has status 200 and its body decodes, \<open>generate_image\<close> returns
  the decoded image with no error: the pair \<open>(image, None)\<close>, where \<open>image\<close> is what
  \<open>Image.open\<close> made of the bytes of the body.
\<close>

theorem generate_image_200_image:
  assumes "response_of env p m t n g = Inr r"
    and "status_code r = 200"
    and "Image_open env (content r) = Inr img"
  shows "generate_image env p m t n g = Inr (Some img, None)"
  using assms by (simp add: generate_image_response)

theorem generate_image_200_image_witness:
  "generate_image (mock_env ok_response noon) ''a red ball'' ''stabilityai/stable-diffusion-2-1''
     ''hf_demo'' 50 7.5 = Inr (Some png_body, None)"
proof (rule generate_image_200_image)
  show "response_of (mock_env ok_response noon) ''a red ball''
          ''stabilityai/stable-diffusion-2-1'' ''hf_demo'' 50 7.5 = Inr ok_response"
    by (rule response_of_mock)
  show "status_code ok_response = 200" by (simp add: ok_response_def)
  show "Image_open (mock_env ok_response noon) (content ok_response) = Inr png_body"
    by (simp add: mock_env_def ok_response_def mock_open_def png_body_def)
qed

text \<open>
  C2. When the status is not 200 and the lower-cased text of the response contains
  \<open>waiting for the model to be loaded\<close>, \<open>generate_image\<close> returns no image and the
  one fixed message, whatever the status code is. By \<open>loading_test_iff\<close> the test
  holds exactly when the text contains a run of characters whose lower case is that
  phrase.
\<close>

theorem generate_image_loading:
  assumes "response_of env p m t n g = Inr r"
    and "status_code r \<noteq> 200"
    and "str_contains (str_lower (body_text r)) loading_needle"
  shows "generate_image env p m t n g = Inr (None, Some loading_message)"
  using assms by (simp add: generate_image_response)

lemma loading_response_test:
  "str_contains (str_lower (body_text loading_response)) loading_needle"
  by code_simp

theorem generate_image_loading_witness:
  "generate_image (mock_env loading_response noon) ''a red ball''
     ''stabilityai/stable-diffusion-2-1'' ''hf_demo'' 50 7.5 =
   Inr (None, Some ''Model is still loading. Please wait a moment and try again.'')"
proof -
  have "status_code loading_response \<noteq> 200" by (simp add: loading_response_def)
  from generate_image_loading [OF response_of_mock this loading_response_test]
  show ?thesis by (simp add: loading_message_def)
qed

text \<open>
  C3. When the status is not 200 and the lower-cased text does not contain the phrase,
  \<open>generate_image\<close> returns no image and the message made of \<open>Error: \<close>, the status
  code in decimal, a newline and the text of the response as it is. The message stands
  for the fatal error, and the status code and the text can be read back from it: no
  other code and text give the same message.
\<close>

theorem generate_image_other_error:
  assumes "response_of env p m t n g = Inr r"
    and "status_code r \<noteq> 200"
    and "\<not> str_contains (str_lower (body_text r)) loading_needle"
  shows "generate_image env p m t n g =
           Inr (None, Some (''Error: '' @ str_int (status_code r) @ [CHR 0x0A] @ body_text r)) \<and>
         result_tag (generate_image env p m t n g) = Tag_FatalError \<and>
         (\<forall>c b. error_message c b = error_message (status_code r) (body_text r) \<longrightarrow>
            c = status_code r \<and> b = body_text r)"
proof -
  have "generate_image env p m t n g =
          Inr (None, Some (error_message (status_code r) (body_text r)))"
    using assms by (simp add: generate_image_response)
  moreover have "\<forall>c b. error_message c b = error_message (status_code r) (body_text r) \<longrightarrow>
            c = status_code r \<and> b = body_text r"
    using error_message_inj by blast
  ultimately show ?thesis
    by (simp add: error_message_not_loading error_message_not_Nil) (simp add: error_message_def)
qed

lemma failed_response_test:
  "\<not> str_contains (str_lower (body_text failed_response)) loading_needle"
  by code_simp

lemma str_int_500: "str_int 500 = ''500''"
  by code_simp

theorem generate_image_other_error_witness:
  "generate_image (mock_env failed_response noon) ''a red ball''
     ''stabilityai/stable-diffusion-2-1'' ''hf_demo'' 50 7.5 =
   Inr (None, Some (''Error: 500'' @ [CHR 0x0A] @ ''Internal Server Error''))"
proof -
  have "status_code failed_response \<noteq> 200" by (simp add: failed_response_def)
  from generate_image_other_error [OF response_of_mock this failed_response_test]
  show ?thesis by (simp add: failed_response_def str_int_500)
qed

text \<open>
  C4. A response with status 200 whose body does not decode gives no error value:
  \<open>Image.open\<close> raises inside \<open>generate_image\<close>, nothing catches the exception, and
  the call returns no pair. For the body \<open>[1, 2, 3]\<close> the call ends with
  \<open>UnidentifiedImageError\<close>.
\<close>

theorem undecodable_200_counterexample:
  "status_code garbled_response = 200 \<and>
   Image_open (mock_env garbled_response noon) (content garbled_response) =
     Inl UnidentifiedImageError \<and>
   generate_image (mock_env garbled_response noon) ''a red ball''
     ''stabilityai/stable-diffusion-2-1'' ''hf_demo'' 50 7.5 = Inl UnidentifiedImageError \<and>
   result_tag (generate_image (mock_env garbled_response noon) ''a red ball''
     ''stabilityai/stable-diffusion-2-1'' ''hf_demo'' 50 7.5) \<noteq> Tag_FatalError"
  by (simp add: generate_image_response response_of_mock)
     (simp add: garbled_response_def mock_env_def mock_open_def)

text \<open>
  C4, as the code has it: when the response has status 200 and \<open>Image.open\<close> raises on
  its body, that exception leaves \<open>generate_image\<close>; the failure is a raised
  exception, not a returned error.
\<close>

theorem generate_image_200_undecodable:
  assumes "response_of env p m t n g = Inr r"
    and "status_code r = 200"
    and "Image_open env (content r) = Inl e"
  shows "generate_image env p m t n g = Inl e \<and>
         result_tag (generate_image env p m t n g) = Tag_Raised"
  using assms by (simp add: generate_image_response)

theorem generate_image_200_undecodable_witness:
  "generate_image (mock_env garbled_response noon) ''a red ball''
     ''stabilityai/stable-diffusion-2-1'' ''hf_demo'' 50 7.5 = Inl UnidentifiedImageError \<and>
   result_tag (generate_image (mock_env garbled_response noon) ''a red ball''
     ''stabilityai/stable-diffusion-2-1'' ''hf_demo'' 50 7.5) = Tag_Raised"
proof (rule generate_image_200_undecodable)
  show "response_of (mock_env garbled_response noon) ''a red ball''
          ''stabilityai/stable-diffusion-2-1'' ''hf_demo'' 50 7.5 = Inr garbled_response"
    by (rule response_of_mock)
  show "status_code garbled_response = 200" by (simp add: garbled_response_def)
  show "Image_open (mock_env garbled_response noon) (content garbled_response) =
          Inl UnidentifiedImageError"
    by (simp add: mock_env_def garbled_response_def mock_open_def)
qed

text \<open>
  C8. The tag of the result of \<open>generate_image\<close> depends on nothing but the response
  the call receives, and of the response only on its status code, its text and whether
  its body decodes. Two calls with the same arguments whose endpoints agree in this
  sense return results with the same tag, also when the bytes of the two bodies differ;
  two calls against one deterministic endpoint are the case of two equal environments.
\<close>

theorem generate_image_same_tag:
  assumes "agree env1 env2 (response_of env1 p m t n g) (response_of env2 p m t n g)"
  shows "result_tag (generate_image env1 p m t n g) = result_tag (generate_image env2 p m t n g)"
proof (cases "response_of env1 p m t n g")
  case l1: (Inl e1)
  then show ?thesis using assms
    by (cases "response_of env2 p m t n g") (simp_all add: generate_image_response)
next
  case r1: (Inr r1)
  show ?thesis
  proof (cases "response_of env2 p m t n g")
    case (Inl e2)
    then show ?thesis using assms r1 by simp
  next
    case r2: (Inr r2)
    have same: "status_code r1 = status_code r2" "body_text r1 = body_text r2"
      "isl (Image_open env1 (content r1)) = isl (Image_open env2 (content r2))"
      using assms r1 r2 by simp_all
    show ?thesis
    proof (cases "status_code r1 = 200")
      case True
      then show ?thesis using same r1 r2
        by (cases "Image_open env1 (content r1)"; cases "Image_open env2 (content r2)")
           (simp_all add: generate_image_response)
    next
      case False
      then show ?thesis using same r1 r2
        by (simp add: generate_image_response)
    qed
  qed
qed

theorem generate_image_same_tag_witness:
  "generate_image (mock_env ok_response noon) ''a red ball''
     ''stabilityai/stable-diffusion-2-1'' ''hf_demo'' 50 7.5 = Inr (Some png_body, None) \<and>
   generate_image (mock_env other_ok_response later) ''a red ball''
     ''stabilityai/stable-diffusion-2-1'' ''hf_demo'' 50 7.5 = Inr (Some other_png_body, None) \<and>
   png_body \<noteq> other_png_body \<and>
   result_tag (generate_image (mock_env ok_response noon) ''a red ball''
     ''stabilityai/stable-diffusion-2-1'' ''hf_demo'' 50 7.5) =
   result_tag (generate_image (mock_env other_ok_response later) ''a red ball''
     ''stabilityai/stable-diffusion-2-1'' ''hf_demo'' 50 7.5)"
proof -
  have a: "agree (mock_env ok_response noon) (mock_env other_ok_response later)
          (response_of (mock_env ok_response noon) ''a red ball''
             ''stabilityai/stable-diffusion-2-1'' ''hf_demo'' 50 7.5)
          (response_of (mock_env other_ok_response later) ''a red ball''
             ''stabilityai/stable-diffusion-2-1'' ''hf_demo'' 50 7.5)"
    by (simp add: response_of_mock)
       (simp add: mock_env_def ok_response_def other_ok_response_def mock_open_def
          png_body_def other_png_body_def)
  have b: "generate_image (mock_env ok_response noon) ''a red ball''
     ''stabilityai/stable-diffusion-2-1'' ''hf_demo'' 50 7.5 = Inr (Some png_body, None)"
    by (simp add: generate_image_response response_of_mock)
       (simp add: mock_env_def ok_response_def mock_open_def png_body_def)
  have c: "generate_image (mock_env other_ok_response later) ''a red ball''
     ''stabilityai/stable-diffusion-2-1'' ''hf_demo'' 50 7.5 = Inr (Some other_png_body, None)"
    by (simp add: generate_image_response response_of_mock)
       (simp add: mock_env_def other_ok_response_def mock_open_def other_png_body_def)
  have d: "png_body \<noteq> other_png_body"
    by (simp add: png_body_def other_png_body_def)
  from generate_image_same_tag [OF a] b c d show ?thesis by simp
qed

text \<open>
  C9. Not every response gives a pair: the endpoint answers with status 200 and the body
  \<open>[1, 2, 3]\<close>, the response arrives, and \<open>generate_image\<close> returns no pair at
  all, because \<open>Image.open\<close> raises \<open>UnidentifiedImageError\<close> and nothing
  catches it.
\<close>

theorem no_pair_for_undecodable_200_counterexample:
  "response_of (mock_env garbled_response noon) ''a red ball''
     ''stabilityai/stable-diffusion-2-1'' ''hf_demo'' 50 7.5 = Inr garbled_response \<and>
   status_code garbled_response = 200 \<and>
   generate_image (mock_env garbled_response noon) ''a red ball''
     ''stabilityai/stable-diffusion-2-1'' ''hf_demo'' 50 7.5 = Inl UnidentifiedImageError \<and>
   isl (generate_image (mock_env garbled_response noon) ''a red ball''
     ''stabilityai/stable-diffusion-2-1'' ''hf_demo'' 50 7.5)"
  by (simp add: generate_image_response response_of_mock)
     (simp add: garbled_response_def mock_env_def mock_open_def)

text \<open>
  C9, as the code has it. For every response \<open>generate_image\<close> receives: a status
  other than 200 gives a pair \<open>(None, message)\<close> with a message that is not empty, a
  status 200 with a body that decodes gives \<open>(image, None)\<close>, a status 200 with a body
  on which \<open>Image.open\<close> raises gives no pair (the exception leaves the function), and
  every pair that the function returns has exactly one component that is not \<open>None\<close>.
\<close>

theorem generate_image_pair_or_raise:
  assumes "response_of env p m t n g = Inr r"
  shows "(status_code r \<noteq> 200 \<longrightarrow>
            (\<exists>msg. msg \<noteq> [] \<and> generate_image env p m t n g = Inr (None, Some msg))) \<and>
         (\<forall>img. status_code r = 200 \<and> Image_open env (content r) = Inr img \<longrightarrow>
            generate_image env p m t n g = Inr (Some img, None)) \<and>
         (\<forall>e. status_code r = 200 \<and> Image_open env (content r) = Inl e \<longrightarrow>
            generate_image env p m t n g = Inl e) \<and>
         (\<forall>image error. generate_image env p m t n g = Inr (image, error) \<longrightarrow>
            (image = None) \<noteq> (error = None))"
proof (intro conjI allI impI)
  assume "status_code r \<noteq> 200"
  then show "\<exists>msg. msg \<noteq> [] \<and> generate_image env p m t n g = Inr (None, Some msg)"
    using assms
    by (simp add: generate_image_response loading_message_not_Nil error_message_not_Nil)
next
  fix img
  assume "status_code r = 200 \<and> Image_open env (content r) = Inr img"
  then show "generate_image env p m t n g = Inr (Some img, None)"
    using assms by (simp add: generate_image_response)
next
  fix e
  assume "status_code r = 200 \<and> Image_open env (content r) = Inl e"
  then show "generate_image env p m t n g = Inl e"
    using assms by (simp add: generate_image_response)
next
  fix image error
  assume "generate_image env p m t n g = Inr (image, error)"
  then show "(image = None) \<noteq> (error = None)"
    using assms by (auto simp: generate_image_response split: if_splits sum.splits)
qed

theorem generate_image_pair_or_raise_witness:
  "generate_image (mock_env failed_response noon) ''a red ball''
     ''stabilityai/stable-diffusion-2-1'' ''hf_demo'' 50 7.5 =
     Inr (None, Some (''Error: 500'' @ [CHR 0x0A] @ ''Internal Server Error'')) \<and>
   generate_image (mock_env ok_response noon) ''a red ball''
     ''stabilityai/stable-diffusion-2-1'' ''hf_demo'' 50 7.5 = Inr (Some png_body, None) \<and>
   generate_image (mock_env garbled_response noon) ''a red ball''
     ''stabilityai/stable-diffusion-2-1'' ''hf_demo'' 50 7.5 = Inl UnidentifiedImageError"
proof -
  have 1: "status_code failed_response \<noteq> 200" by (simp add: failed_response_def)
  have 2: "status_code ok_response = 200 \<and>
      Image_open (mock_env ok_response noon) (content ok_response) = Inr png_body"
    by (simp add: mock_env_def ok_response_def mock_open_def png_body_def)
  have 3: "status_code garbled_response = 200 \<and>
      Image_open (mock_env garbled_response noon) (content garbled_response) =
        Inl UnidentifiedImageError"
    by (simp add: mock_env_def garbled_response_def mock_open_def)
  from generate_image_pair_or_raise [OF response_of_mock, of failed_response noon
      "''a red ball''" "''stabilityai/stable-diffusion-2-1''" "''hf_demo''" 50 "7.5"] 1
  obtain msg where msg: "generate_image (mock_env failed_response noon) ''a red ball''
        ''stabilityai/stable-diffusion-2-1'' ''hf_demo'' 50 7.5 = Inr (None, Some msg)"
    by blast
  have "generate_image (mock_env failed_response noon) ''a red ball''
        ''stabilityai/stable-diffusion-2-1'' ''hf_demo'' 50 7.5 =
      Inr (None, Some (error_message 500 ''Internal Server Error''))"
    using failed_response_test
    by (simp add: generate_image_response response_of_mock) (simp add: failed_response_def)
  then have a: "msg = ''Error: 500'' @ [CHR 0x0A] @ ''Internal Server Error''"
    using msg by (simp add: error_message_def str_int_500)
  from generate_image_pair_or_raise [OF response_of_mock, of ok_response noon
      "''a red ball''" "''stabilityai/stable-diffusion-2-1''" "''hf_demo''" 50 "7.5"] 2
  have b: "generate_image (mock_env ok_response noon) ''a red ball''
     ''stabilityai/stable-diffusion-2-1'' ''hf_demo'' 50 7.5 = Inr (Some png_body, None)"
    by blast
  from generate_image_pair_or_raise [OF response_of_mock, of garbled_response noon
      "''a red ball''" "''stabilityai/stable-diffusion-2-1''" "''hf_demo''" 50 "7.5"] 3
  have c: "generate_image (mock_env garbled_response noon) ''a red ball''
     ''stabilityai/stable-diffusion-2-1'' ''hf_demo'' 50 7.5 = Inl UnidentifiedImageError"
    by blast
  from msg a b c show ?thesis by simp
qed

section \<open>The runs of the script\<close>

lemma generate_section_rejects:
  "api_token w = [] \<or> prompt w = [] \<Longrightarrow>
   generate_section env w s =
     (s, if generate_button w
         then [St_error (if api_token w = []
                 then ''Please enter your Hugging Face API token in the sidebar.''
                 else ''Please enter a prompt to generate an image.'')]
         else [], None)"
  by (auto simp: generate_section_def)

lemma display_section_no_call:
  "e \<in> set (fst (snd (display_section env w s))) \<Longrightarrow> \<not> is_call e"
  by (auto simp: display_section_def Let_def split: option.splits pyvalue.splits sum.splits if_splits)

lemma generate_section_session:
  "fst (generate_section env w s) = s \<or>
   (generate_button w \<and> api_token w \<noteq> [] \<and> prompt w \<noteq> [] \<and>
    (\<exists>img err. generate_image env (prompt w) (model_id w) (api_token w) (num_steps w)
         (guidance_scale w) = Inr (Some img, err) \<and>
       fst (generate_section env w s) = s(''last_image'' \<mapsto> Img img, ''last_prompt'' \<mapsto> Str (prompt w))))"
  by (auto simp: generate_section_def Let_def split: sum.splits option.splits prod.splits)

lemma generate_section_stores:
  assumes "generate_button w" "api_token w \<noteq> []" "prompt w \<noteq> []"
    and "generate_image env (prompt w) (model_id w) (api_token w) (num_steps w)
           (guidance_scale w) = Inr (Some img, err)"
  shows "generate_section env w s =
           (s(''last_image'' \<mapsto> Img img, ''last_prompt'' \<mapsto> Str (prompt w)),
            [Call_generate_image (prompt w) (model_id w) (api_token w) (num_steps w)
               (guidance_scale w)], None)"
  using assms by (simp add: generate_section_def Let_def)

lemma generate_section_error:
  assumes "generate_button w" "api_token w \<noteq> []" "prompt w \<noteq> []"
    and "generate_image env (prompt w) (model_id w) (api_token w) (num_steps w)
           (guidance_scale w) = Inr (None, err)"
  shows "fst (generate_section env w s) = s \<and> snd (snd (generate_section env w s)) = None"
  using assms by (cases err) (simp_all add: generate_section_def Let_def)


lemma generate_section_raises:
  "snd (snd (generate_section env w s)) = Some e \<Longrightarrow> fst (generate_section env w s) = s"
  by (auto simp: generate_section_def Let_def split: sum.splits option.splits prod.splits if_splits)

lemma display_section_session:
  "fst (display_section env w s) = s \<or>
   (create_new_button w \<and>
    fst (display_section env w s) = s(''last_image'' := None, ''last_prompt'' := None))"
  by (auto simp: display_section_def Let_def split: option.splits pyvalue.splits sum.splits)

lemma display_section_keeps:
  "\<not> create_new_button w \<Longrightarrow> fst (display_section env w s) = s"
  using display_section_session [of env w s] by blast


lemma display_section_download:
  assumes "St_download_button d f mime \<in> set (fst (snd (display_section env w s)))"
  shows "f = ''ai_image_'' @ strftime (datetime_now env) @ ''.png'' \<and> mime = ''image/png'' \<and>
         (\<exists>im. s ''last_image'' = Some (Img im) \<and> Image_save_png env im = Inr d)"
  using assms
  by (auto simp: display_section_def Let_def split: option.splits pyvalue.splits sum.splits if_splits)

lemma generate_section_no_download:
  "St_download_button d f mime \<notin> set (fst (snd (generate_section env w s)))"
  by (auto simp: generate_section_def Let_def split: sum.splits option.splits prod.splits)

lemma script_run_session:
  "session_state (script_run env w s) =
     (if snd (snd (generate_section env w s)) = None
      then fst (display_section env w (fst (generate_section env w s)))
      else s)"
proof (cases "generate_section env w s")
  case (fields s1 ev1 exc)
  show ?thesis
  proof (cases exc)
    case None
    then show ?thesis using fields
      by (simp add: script_run_def split: prod.splits)
  next
    case (Some e)
    then have "s1 = s" using fields generate_section_raises [of env w s e] by simp
    then show ?thesis using fields Some by (simp add: script_run_def)
  qed
qed

lemma script_run_events:
  "events (script_run env w s) =
     (if snd (snd (generate_section env w s)) = None
      then fst (snd (generate_section env w s)) @
           fst (snd (display_section env w (fst (generate_section env w s))))
      else fst (snd (generate_section env w s)))"
  by (cases "generate_section env w s")
     (auto simp: script_run_def split: prod.splits option.splits)

lemma one_result_empty: "one_result Map.empty"
  by (simp add: one_result_def)

lemma one_result_store:
  "one_result s \<Longrightarrow> one_result (s(''last_image'' \<mapsto> Img img, ''last_prompt'' \<mapsto> Str p))"
  by (auto simp: one_result_def)

lemma one_result_clear:
  "one_result s \<Longrightarrow> s(''last_image'' := None, ''last_prompt'' := None) = Map.empty"
proof
  fix k
  assume "one_result s"
  then have "dom s \<subseteq> {''last_image'', ''last_prompt''}" by (simp add: one_result_def)
  then show "(s(''last_image'' := None, ''last_prompt'' := None)) k = Map.empty k"
    by (cases "s k") auto
qed

lemma one_result_step: "one_result s \<Longrightarrow> one_result (session_state (script_run env w s))"
  using generate_section_session [of env w s]
    display_section_session [of env w "fst (generate_section env w s)"]
    one_result_store [of s] one_result_clear [of "fst (generate_section env w s)"] one_result_empty
  by (auto simp: script_run_session)

lemma reachable_one_result: "reachable s \<Longrightarrow> one_result s"
  by (induction rule: reachable.induct) (simp_all add: one_result_empty one_result_step)

lemma one_result_both: "one_result s \<Longrightarrow> (s ''last_image'' = None) = (s ''last_prompt'' = None)"
  by (auto simp: one_result_def split: option.splits pyvalue.splits)

lemma generate_image_mock_ok:
  "generate_image (mock_env ok_response d) p m t n g = Inr (Some png_body, None)"
  by (simp add: generate_image_response response_of_mock)
     (simp add: mock_env_def ok_response_def mock_open_def png_body_def)

lemma generate_image_mock_failed:
  "generate_image (mock_env failed_response d) p m t n g =
     Inr (None, Some (error_message 500 ''Internal Server Error''))"
  using failed_response_test
  by (simp add: generate_image_response response_of_mock) (simp add: failed_response_def)


lemma request_widgets_fields:
  "generate_button request_widgets" "\<not> create_new_button request_widgets"
  "api_token request_widgets \<noteq> []" "prompt request_widgets \<noteq> []"
  "prompt request_widgets = ''a red ball''"
  by (simp_all add: request_widgets_def)

lemma held_session_eq:
  "held_session = [''last_image'' \<mapsto> Img png_body, ''last_prompt'' \<mapsto> Str ''a red ball'']"
proof -
  have "generate_section (mock_env ok_response noon) request_widgets Map.empty =
          ([''last_image'' \<mapsto> Img png_body, ''last_prompt'' \<mapsto> Str ''a red ball''],
           [Call_generate_image (prompt request_widgets) (model_id request_widgets)
              (api_token request_widgets) (num_steps request_widgets)
              (guidance_scale request_widgets)], None)"
    using generate_section_stores [OF request_widgets_fields(1,3,4) generate_image_mock_ok]
    by (simp add: request_widgets_fields)
  then show ?thesis
    by (simp add: held_session_def first_run_def no_session_def script_run_session
          display_section_keeps request_widgets_fields)
qed

lemma strftime_noon: "strftime noon = ''20240102_120000''"
  by code_simp

lemma strftime_later: "strftime later = ''20240102_120530''"
  by code_simp

lemma reachable_held: "reachable held_session"
  unfolding held_session_def first_run_def no_session_def
  by (rule reachable.step [OF reachable.start])



lemma idle_widgets_fields:
  "\<not> create_new_button idle_widgets" "\<not> generate_button idle_widgets"
  by (simp_all add: idle_widgets_def request_widgets_def)

lemma mock_save: "Image_save_png (mock_env r d) im = Inr im"
  by (simp add: mock_env_def)

lemma mock_now: "datetime_now (mock_env r d) = d"
  by (simp add: mock_env_def)

lemma held_session_fields:
  "held_session ''last_image'' = Some (Img png_body)"
  "held_session ''last_prompt'' = Some (Str ''a red ball'')"
  by (simp_all add: held_session_eq)

section \<open>The session state and the download\<close>

text \<open>
  C5. In a run whose prompt or token is empty, \<open>generate_image\<close> is not called: no call
  is among the events of the run, the first part of the script leaves the session state
  as it was, and when the button was pressed the run starts with the error element that
  asks for the missing input.
\<close>

theorem no_dispatch_without_input:
  assumes "api_token w = [] \<or> prompt w = []"
  shows "(\<forall>e \<in> set (events (script_run env w s)). \<not> is_call e) \<and>
         fst (generate_section env w s) = s \<and>
         (generate_button w \<longrightarrow>
            (\<exists>msg rest. events (script_run env w s) = St_error msg # rest))"
proof -
  have g: "generate_section env w s =
     (s, if generate_button w
         then [St_error (if api_token w = []
                 then ''Please enter your Hugging Face API token in the sidebar.''
                 else ''Please enter a prompt to generate an image.'')]
         else [], None)"
    using assms by (rule generate_section_rejects)
  have "\<forall>e \<in> set (events (script_run env w s)). \<not> is_call e"
    using display_section_no_call [of _ env w s] by (auto simp: script_run_events g)
  moreover have "fst (generate_section env w s) = s" by (simp add: g)
  moreover have "generate_button w \<longrightarrow>
            (\<exists>msg rest. events (script_run env w s) = St_error msg # rest)"
    by (simp add: script_run_events g)
  ultimately show ?thesis by blast
qed

theorem no_dispatch_without_input_witness:
  "events (script_run (mock_env ok_response noon) no_prompt_widgets no_session) =
     [St_error ''Please enter a prompt to generate an image.''] \<and>
   events (script_run (mock_env ok_response noon) no_token_widgets no_session) =
     [St_error ''Please enter your Hugging Face API token in the sidebar.''] \<and>
   fst (generate_section (mock_env ok_response noon) no_prompt_widgets no_session) =
     no_session \<and>
   fst (generate_section (mock_env ok_response noon) no_token_widgets no_session) =
     no_session"
proof -
  have p: "api_token no_prompt_widgets = [] \<or> prompt no_prompt_widgets = []"
    by (simp add: no_prompt_widgets_def)
  have t: "api_token no_token_widgets = [] \<or> prompt no_token_widgets = []"
    by (simp add: no_token_widgets_def)
  have 1: "events (script_run (mock_env ok_response noon) no_prompt_widgets no_session) =
     [St_error ''Please enter a prompt to generate an image.'']"
    by (simp add: script_run_def generate_section_def display_section_def
          no_prompt_widgets_def request_widgets_def no_session_def)
  have 2: "events (script_run (mock_env ok_response noon) no_token_widgets no_session) =
     [St_error ''Please enter your Hugging Face API token in the sidebar.'']"
    by (simp add: script_run_def generate_section_def display_section_def
          no_token_widgets_def request_widgets_def no_session_def)
  from no_dispatch_without_input [OF p, of "mock_env ok_response noon" no_session]
    no_dispatch_without_input [OF t, of "mock_env ok_response noon" no_session] 1 2
  show ?thesis by blast
qed




lemma idle_run_events:
  "events (script_run (mock_env ok_response later) idle_widgets held_session) =
     [St_image (Img png_body) (Str ''a red ball''),
      St_download_button png_body ''ai_image_20240102_120530.png'' ''image/png'']"
proof -
  have g: "generate_section (mock_env ok_response later) idle_widgets held_session =
      (held_session, [], None)"
    by (simp add: generate_section_def idle_widgets_fields)
  have "display_section (mock_env ok_response later) idle_widgets held_session =
      (held_session,
       [St_image (Img png_body) (Str ''a red ball''),
        St_download_button png_body (''ai_image_'' @ strftime later @ ''.png'') ''image/png''],
       Completed)"
    by (simp add: display_section_def held_session_fields mock_save mock_now idle_widgets_fields)
  then show ?thesis by (simp add: script_run_events g strftime_later)
qed

lemma first_run_events:
  "events first_run =
     [Call_generate_image ''a red ball'' ''stabilityai/stable-diffusion-2-1'' ''hf_demo'' 50 7.5,
      St_image (Img png_body) (Str ''a red ball''),
      St_download_button png_body ''ai_image_20240102_120000.png'' ''image/png'']"
proof -
  have g: "generate_section (mock_env ok_response noon) request_widgets Map.empty =
          ([''last_image'' \<mapsto> Img png_body, ''last_prompt'' \<mapsto> Str ''a red ball''],
           [Call_generate_image ''a red ball'' ''stabilityai/stable-diffusion-2-1'' ''hf_demo''
              50 7.5], None)"
    using generate_section_stores [OF request_widgets_fields(1,3,4) generate_image_mock_ok,
        of noon Map.empty]
    by (simp add: request_widgets_def)
  have "display_section (mock_env ok_response noon) request_widgets
          [''last_image'' \<mapsto> Img png_body, ''last_prompt'' \<mapsto> Str ''a red ball''] =
      ([''last_image'' \<mapsto> Img png_body, ''last_prompt'' \<mapsto> Str ''a red ball''],
       [St_image (Img png_body) (Str ''a red ball''),
        St_download_button png_body (''ai_image_'' @ strftime noon @ ''.png'') ''image/png''],
       Completed)"
    by (simp add: display_section_def mock_save mock_now request_widgets_fields)
  then show ?thesis
    by (simp add: first_run_def no_session_def script_run_events g strftime_noon)
qed

text \<open>
  C7. The time in the name is not the time the image was made: the first run makes the
  image at noon and offers it as \<open>ai_image_20240102_120000.png\<close>; a later run of the
  same session, at 12:05:30, calls nothing and offers the same image as
  \<open>ai_image_20240102_120530.png\<close>.
\<close>

theorem download_name_later_run_counterexample:
  "datetime_now (mock_env ok_response noon) = noon \<and>
   download_names (events first_run) = [''ai_image_20240102_120000.png''] \<and>
   held_session = session_state first_run \<and>
   datetime_now (mock_env ok_response later) = later \<and>
   events (script_run (mock_env ok_response later) idle_widgets held_session) =
     [St_image (Img png_body) (Str ''a red ball''),
      St_download_button png_body ''ai_image_20240102_120530.png'' ''image/png'']"
  by (simp add: first_run_events idle_run_events mock_now) (simp add: held_session_def)

text \<open>
  C7, as the code has it. Every download that a run offers has the mime type
  \<open>image/png\<close>, the held image saved as PNG as its data, and the name \<open>ai_image_\<close>,
  the value of \<open>datetime.now()\<close> in this run written as \<open>YYYYMMDD_HHMMSS\<close>, and
  \<open>.png\<close>; for a date with a four-digit year that is 8 digits, an underscore and 6
  digits.
\<close>

theorem download_name_is_run_time:
  assumes "St_download_button d f mime \<in> set (events (script_run env w s))"
  shows "f = ''ai_image_'' @ strftime (datetime_now env) @ ''.png'' \<and> mime = ''image/png'' \<and>
         (\<exists>im. fst (generate_section env w s) ''last_image'' = Some (Img im) \<and>
               Image_save_png env im = Inr d) \<and>
         (valid_datetime (datetime_now env) \<longrightarrow> timestamp_shape (strftime (datetime_now env)))"
proof -
  have "St_download_button d f mime \<in>
          set (fst (snd (display_section env w (fst (generate_section env w s)))))"
    using assms generate_section_no_download [of d f mime env w s]
    by (auto simp: script_run_events split: if_splits)
  then have "f = ''ai_image_'' @ strftime (datetime_now env) @ ''.png'' \<and> mime = ''image/png'' \<and>
         (\<exists>im. fst (generate_section env w s) ''last_image'' = Some (Img im) \<and>
               Image_save_png env im = Inr d)"
    by (rule display_section_download)
  then show ?thesis using strftime_shape by blast
qed

lemma valid_later: "valid_datetime later"
  by (simp add: valid_datetime_def later_def)

theorem download_name_is_run_time_witness:
  "St_download_button png_body ''ai_image_20240102_120530.png'' ''image/png'' \<in>
     set (events (script_run (mock_env ok_response later) idle_widgets held_session)) \<and>
   ''ai_image_20240102_120530.png'' = ''ai_image_'' @ strftime later @ ''.png'' \<and>
   valid_datetime later \<and> timestamp_shape (strftime later)"
proof -
  have e: "St_download_button png_body ''ai_image_20240102_120530.png'' ''image/png'' \<in>
     set (events (script_run (mock_env ok_response later) idle_widgets held_session))"
    by (simp add: idle_run_events)
  from download_name_is_run_time [OF e] valid_later
  have "''ai_image_20240102_120530.png'' = ''ai_image_'' @ strftime later @ ''.png'' \<and>
        timestamp_shape (strftime later)"
    by (simp add: mock_now)
  then show ?thesis using e valid_later by blast
qed

text \<open>
  C10. When the call of \<open>generate_image\<close> returns an error, the first part of the
  script leaves the session state as it was, and so does the whole run (unless the
  other button was pressed in it): what was held is still there, unchanged. In every
  session state a session can reach, before and after such a run, \<open>last_image\<close> and
  \<open>last_prompt\<close> are both present or both missing.
\<close>

theorem failed_dispatch_keeps_session:
  assumes "generate_button w" and "api_token w \<noteq> []" and "prompt w \<noteq> []"
    and "generate_image env (prompt w) (model_id w) (api_token w) (num_steps w)
           (guidance_scale w) = Inr (None, err)"
  shows "fst (generate_section env w s) = s \<and>
         (\<not> create_new_button w \<longrightarrow> session_state (script_run env w s) = s) \<and>
         (reachable s \<longrightarrow>
            (s ''last_image'' = None) = (s ''last_prompt'' = None) \<and>
            (session_state (script_run env w s) ''last_image'' = None) =
            (session_state (script_run env w s) ''last_prompt'' = None))"
proof -
  have g: "fst (generate_section env w s) = s \<and> snd (snd (generate_section env w s)) = None"
    using assms by (rule generate_section_error)
  then have "\<not> create_new_button w \<longrightarrow> session_state (script_run env w s) = s"
    by (simp add: script_run_session display_section_keeps)
  moreover have "reachable s \<longrightarrow>
            (s ''last_image'' = None) = (s ''last_prompt'' = None) \<and>
            (session_state (script_run env w s) ''last_image'' = None) =
            (session_state (script_run env w s) ''last_prompt'' = None)"
    using reachable_one_result [of s] one_result_step [of s env w] one_result_both
    by blast
  ultimately show ?thesis using g by blast
qed

theorem failed_dispatch_keeps_session_witness:
  "session_state (script_run (mock_env failed_response later) request_widgets held_session) =
     held_session \<and>
   held_session ''last_image'' = Some (Img png_body) \<and>
   held_session ''last_prompt'' = Some (Str ''a red ball'') \<and>
   reachable held_session"
proof -
  from failed_dispatch_keeps_session
    [OF request_widgets_fields(1,3,4) generate_image_mock_failed, of later held_session]
  have "session_state (script_run (mock_env failed_response later) request_widgets held_session) =
     held_session"
    by (simp add: request_widgets_fields)
  then show ?thesis by (simp add: held_session_fields reachable_held)
qed

end
